theory Spec2Isabelle
  imports Main
begin

section \<open>Strings, numbers and paths as the runner uses them\<close>

text \<open>
  The runner \<^verbatim>\<open>run_workflow.py\<close> formats integers into f-strings, strips and splits the
  output of the version-control command, and builds file names with \<^verbatim>\<open>pathlib\<close>.
  These library operations are written out here. A \<open>char\<close> stands for one code point
  below 256.
\<close>

definition digit_char :: "nat \<Rightarrow> char" where
  "digit_char d = ''0123456789'' ! d"

fun str_nat :: "nat \<Rightarrow> string" where
  "str_nat n = (if n < 10 then [digit_char n] else str_nat (n div 10) @ [digit_char (n mod 10)])"

declare str_nat.simps [simp del]

text \<open>\<^verbatim>\<open>str(i)\<close> for a Python \<^verbatim>\<open>int\<close>.\<close>

definition str_int :: "int \<Rightarrow> string" where
  "str_int i = (if i < 0 then CHR ''-'' # str_nat (nat (- i)) else str_nat (nat i))"

text \<open>\<^verbatim>\<open>str.isspace\<close> on the code points below 256.\<close>

definition isspace :: "char \<Rightarrow> bool" where
  "isspace c = (let n = (of_char c :: nat) in
     (9 \<le> n \<and> n \<le> 13) \<or> (28 \<le> n \<and> n \<le> 32) \<or> n = 133 \<or> n = 160)"

text \<open>\<^verbatim>\<open>s.strip()\<close>.\<close>

definition strip :: "string \<Rightarrow> string" where
  "strip s = rev (dropWhile isspace (rev (dropWhile isspace s)))"

text \<open>\<^verbatim>\<open>s.split(sep)\<close> for a one-character separator: the empty string gives one empty field.\<close>

fun split_str :: "char \<Rightarrow> string \<Rightarrow> string list" where
  "split_str sep [] = [[]]"
| "split_str sep (c # cs) =
     (if c = sep then [] # split_str sep cs
      else (case split_str sep cs of
              [] \<Rightarrow> [[c]]
            | w # ws \<Rightarrow> (c # w) # ws))"

text \<open>\<^verbatim>\<open>sep.join(xs)\<close>.\<close>

fun join_str :: "string \<Rightarrow> string list \<Rightarrow> string" where
  "join_str sep [] = []"
| "join_str sep [x] = x"
| "join_str sep (x # y # ys) = x @ sep @ join_str sep (y # ys)"

text \<open>
  A \<^verbatim>\<open>pathlib.PosixPath\<close>: its root (\<^verbatim>\<open>""\<close>, \<^verbatim>\<open>"/"\<close> or \<^verbatim>\<open>"//"\<close>) and its parts after the root.
  Parsing drops empty and \<^verbatim>\<open>"."\<close> components; exactly two leading slashes are kept.
\<close>

datatype path = PosixPath string "string list"

definition path_root :: "string \<Rightarrow> string" where
  "path_root s =
     (if take 2 s = ''//'' \<and> take 3 s \<noteq> ''///'' then ''//''
      else if take 1 s = ''/'' then ''/''
      else [])"

definition Path :: "string \<Rightarrow> path" where
  "Path s = PosixPath (path_root s) (filter (\<lambda>p. p \<noteq> [] \<and> p \<noteq> ''.'') (split_str CHR ''/'' s))"

text \<open>\<^verbatim>\<open>p / name\<close>: an absolute right operand replaces the left one.\<close>

fun truediv :: "path \<Rightarrow> string \<Rightarrow> path" where
  "truediv (PosixPath r ps) name =
     (case Path name of
        PosixPath r' ps' \<Rightarrow> if r' \<noteq> [] then PosixPath r' ps' else PosixPath r (ps @ ps'))"

text \<open>\<^verbatim>\<open>str(p)\<close>.\<close>

fun path_str :: "path \<Rightarrow> string" where
  "path_str (PosixPath r ps) = (if r = [] \<and> ps = [] then ''.'' else r @ join_str ''/'' ps)"

text \<open>\<^verbatim>\<open>p.parent\<close>.\<close>

fun parent :: "path \<Rightarrow> path" where
  "parent (PosixPath r ps) = PosixPath r (butlast ps)"

text \<open>The path itself and every ancestor, as \<^verbatim>\<open>mkdir(parents=True)\<close> visits them.\<close>

fun ancestors :: "path \<Rightarrow> path list" where
  "ancestors (PosixPath r ps) = map (\<lambda>k. PosixPath r (take k ps)) [0 ..< Suc (length ps)]"

section \<open>Python values\<close>

text \<open>
  An exception is an instance of \<^verbatim>\<open>Exception\<close>; its text, \<^verbatim>\<open>str(e)\<close>, is all the runner
  reads of it.
\<close>

type_synonym exn = string

text \<open>
  The attributes of the engine's report are whatever the engine made them. The values
  here are an \<^verbatim>\<open>int\<close>, a \<^verbatim>\<open>str\<close> and \<^verbatim>\<open>None\<close>: a number is an \<^verbatim>\<open>int\<close>, and a value of
  another type that the runner only formats is represented by the \<^verbatim>\<open>str\<close> with the same
  rendering.
\<close>

datatype pyval = PyInt int | PyStr string | PyNone

text \<open>\<^verbatim>\<open>f"{v}"\<close>.\<close>

fun py_format :: "pyval \<Rightarrow> string" where
  "py_format (PyInt i) = str_int i"
| "py_format (PyStr s) = s"
| "py_format PyNone = ''None''"

text \<open>\<^verbatim>\<open>type(v).__name__\<close>, as the texts of \<^verbatim>\<open>TypeError\<close> quote it.\<close>

fun type_name :: "pyval \<Rightarrow> string" where
  "type_name (PyInt i) = ''int''"
| "type_name (PyStr s) = ''str''"
| "type_name PyNone = ''NoneType''"

text \<open>The truth value of \<^verbatim>\<open>v\<close> in a conditional expression.\<close>

fun py_truth :: "pyval \<Rightarrow> bool" where
  "py_truth (PyInt i) = (i \<noteq> 0)"
| "py_truth (PyStr s) = (s \<noteq> [])"
| "py_truth PyNone = False"

text \<open>\<^verbatim>\<open>a - b\<close>: defined on two ints, a \<^verbatim>\<open>TypeError\<close> otherwise.\<close>

fun py_sub :: "pyval \<Rightarrow> pyval \<Rightarrow> exn + pyval" where
  "py_sub (PyInt a) (PyInt b) = Inr (PyInt (a - b))"
| "py_sub a b =
     Inl (''unsupported operand type(s) for -: '' @ [CHR 39] @ type_name a @ [CHR 39] @
          '' and '' @ [CHR 39] @ type_name b @ [CHR 39])"

text \<open>\<^verbatim>\<open>v > 0\<close>: defined on an int, a \<^verbatim>\<open>TypeError\<close> on a \<^verbatim>\<open>str\<close> and on \<^verbatim>\<open>None\<close>.\<close>

fun py_gt_zero :: "pyval \<Rightarrow> exn + bool" where
  "py_gt_zero (PyInt c) = Inr (0 < c)"
| "py_gt_zero v =
     Inl ([CHR 39] @ ''>'' @ [CHR 39] @ '' not supported between instances of '' @
          [CHR 39] @ type_name v @ [CHR 39] @ '' and '' @ [CHR 39] @ ''int'' @ [CHR 39])"

text \<open>Sequencing two steps, the first of which may raise.\<close>

definition bind_exn :: "exn + 'a \<Rightarrow> ('a \<Rightarrow> exn + 'b) \<Rightarrow> exn + 'b" where
  "bind_exn x f = (case x of Inl e \<Rightarrow> Inl e | Inr v \<Rightarrow> f v)"

text \<open>\<^verbatim>\<open>d.get(key, default)\<close> on an optional entry.\<close>

definition dict_get :: "'a option \<Rightarrow> 'a \<Rightarrow> 'a" where
  "dict_get entry dflt = (case entry of None \<Rightarrow> dflt | Some v \<Rightarrow> v)"

section \<open>The data of a run\<close>

text \<open>
  The workflow object returned by the registry is opaque to the runner; it is passed on
  to the engine unchanged.
\<close>

type_synonym workflow = string

text \<open>
  The dictionary a handler returns. The keys \<^verbatim>\<open>summary\<close> and \<^verbatim>\<open>issues_found\<close> are in
  every dictionary built in the source and are read by subscript; \<^verbatim>\<open>critical_count\<close> and
  \<^verbatim>\<open>cost_saved\<close> are read with \<^verbatim>\<open>.get\<close> and a default, so they are optional here. The
  summary is always built as a \<^verbatim>\<open>str\<close>; the other values come from the report.
\<close>

record outcome =
  summary :: string
  issues_found :: pyval
  critical_count :: "pyval option"
  cost_saved :: "pyval option"

text \<open>
  The report object of the external engine: each attribute the runner reads either
  raises or gives a value, the same at every read. An attribute whose formatting or truth
  test raises counts as one whose read raises: the runner does nothing between the read
  and the use. \<^verbatim>\<open>to_markdown()\<close> is a call that raises or returns the text; a return value
  that is not a \<^verbatim>\<open>str\<close> makes \<^verbatim>\<open>write_text\<close> raise a \<^verbatim>\<open>TypeError\<close> before it opens the file,
  and counts as a raise here.
\<close>

record report =
  issue_count :: "exn + pyval"
  critical_count :: "exn + pyval"
  warning_count :: "exn + pyval"
  info_count :: "exn + pyval"
  tier_used :: "exn + pyval"
  cost_savings :: "exn + pyval"
  security_status :: "exn + pyval"
  test_coverage :: "exn + pyval"
  changelog :: "exn + pyval"
  gates_passed :: "exn + pyval"
  gates_total :: "exn + pyval"
  to_markdown :: "exn + string"

text \<open>\<^verbatim>\<open>subprocess.CompletedProcess\<close> with captured text output.\<close>

record completed_process =
  returncode :: int
  stdout :: string
  stderr :: string

text \<open>The parsed command line. \<^verbatim>\<open>argparse\<close> admits two workflow names only.\<close>

datatype workflow_name = CodeReview | ReleasePrep

fun workflow_str :: "workflow_name \<Rightarrow> string" where
  "workflow_str CodeReview = ''code-review''"
| "workflow_str ReleasePrep = ''release-prep''"

record args =
  workflow :: workflow_name
  config :: string
  fail_on_critical :: string
  output_dir :: string

text \<open>The three operations of the runner on the file system.\<close>

datatype fs_op = Mkdir | WriteText | OpenAppend

text \<open>
  What the surroundings do in this run. Importing the engine package, constructing the
  engine, the registry lookup, the subprocess call and the engine's \<^verbatim>\<open>run\<close> either raise
  (\<open>Inl\<close>, \<open>Some\<close>) or return. \<open>environ\<close> is the process environment. \<open>realpath\<close> resolves
  a name to the file it denotes, so that two spellings of one file are one entry of the
  file store. \<open>refused\<close> tells where the operating system refuses an operation for a
  reason the file store does not show (permissions, a read-only or full disk), and
  \<open>oserror\<close> is the text of the \<^verbatim>\<open>OSError\<close> raised when an operation fails.
\<close>

record world =
  import_attune :: "exn option"
  WorkflowEngine :: "bool \<Rightarrow> exn option"
  get_workflow :: "string \<Rightarrow> exn + workflow"
  subprocess_run :: "string list \<Rightarrow> exn + completed_process"
  engine_run :: "workflow \<Rightarrow> string list option \<Rightarrow> string \<Rightarrow> exn + report"
  environ :: "string \<rightharpoonup> string"
  realpath :: "path \<Rightarrow> path"
  refused :: "fs_op \<Rightarrow> path \<Rightarrow> bool"
  oserror :: "fs_op \<Rightarrow> path \<Rightarrow> exn"

text \<open>
  The observable state: the regular files with their contents and the directories, both
  under their resolved names, what the script has printed to the two output streams, and
  the log of calls to the engine's \<^verbatim>\<open>run\<close>.
\<close>

record state =
  files :: "path \<rightharpoonup> string"
  dirs :: "path set"
  sys_stdout :: string
  sys_stderr :: string
  engine_calls :: "(workflow \<times> string list option \<times> string) list"

text \<open>
  How the process ends: by \<^verbatim>\<open>sys.exit(n)\<close> or by falling off the end of \<^verbatim>\<open>main\<close> (status 0),
  or by an exception nothing catches; the interpreter then prints a traceback to the error
  stream and the exit status is 1.
\<close>

datatype ending = Exit int | Uncaught exn

fun exit_status :: "ending \<Rightarrow> int" where
  "exit_status (Exit n) = n"
| "exit_status (Uncaught e) = 1"

section \<open>File operations\<close>

text \<open>A resolved name is a directory if it is the root or the working directory, or was made one.\<close>

fun is_dir :: "state \<Rightarrow> path \<Rightarrow> bool" where
  "is_dir s (PosixPath r ps) = (ps = [] \<or> PosixPath r ps \<in> dirs s)"

text \<open>
  Opening \<open>p\<close> for writing succeeds when the name is not a directory, its parent is one,
  and the operating system does not refuse.
\<close>

definition can_write :: "world \<Rightarrow> fs_op \<Rightarrow> path \<Rightarrow> state \<Rightarrow> bool" where
  "can_write w opn p s =
     (\<not> is_dir s (realpath w p) \<and> is_dir s (parent (realpath w p)) \<and> \<not> refused w opn p)"

text \<open>
  \<^verbatim>\<open>p.mkdir(parents=True, exist_ok=True)\<close>: raises when the path or one of its ancestors
  is a regular file, or when a directory has to be made and the operating system refuses.
\<close>

definition mkdir_parents :: "world \<Rightarrow> path \<Rightarrow> state \<Rightarrow> exn + state" where
  "mkdir_parents w p s =
     (if list_ex (\<lambda>a. files s (realpath w a) \<noteq> None) (ancestors p)
         \<or> (\<not> is_dir s (realpath w p) \<and> refused w Mkdir p)
      then Inl (oserror w Mkdir p)
      else Inr (s\<lparr>dirs := dirs s \<union> realpath w ` set (ancestors p)\<rparr>))"

text \<open>\<^verbatim>\<open>p.write_text(content)\<close>: the file is created or truncated, then written.\<close>

definition write_text :: "world \<Rightarrow> path \<Rightarrow> string \<Rightarrow> state \<Rightarrow> exn + state" where
  "write_text w p content s =
     (if can_write w WriteText p s
      then Inr (s\<lparr>files := (files s)(realpath w p \<mapsto> content)\<rparr>)
      else Inl (oserror w WriteText p))"

text \<open>
  Opening a file with mode \<^verbatim>\<open>"a"\<close> and writing \<open>content\<close> to it: a missing file is created.
\<close>

definition append_text :: "world \<Rightarrow> path \<Rightarrow> string \<Rightarrow> state \<Rightarrow> exn + state" where
  "append_text w p content s =
     (if can_write w OpenAppend p s
      then Inr (s\<lparr>files := (files s)(realpath w p \<mapsto>
                   (case files s (realpath w p) of None \<Rightarrow> [] | Some old \<Rightarrow> old) @ content)\<rparr>)
      else Inl (oserror w OpenAppend p))"

definition print_stdout :: "string \<Rightarrow> state \<Rightarrow> state" where
  "print_stdout msg s = s\<lparr>sys_stdout := sys_stdout s @ msg @ ''\<newline>''\<rparr>"

definition print_stderr :: "string \<Rightarrow> state \<Rightarrow> state" where
  "print_stderr msg s = s\<lparr>sys_stderr := sys_stderr s @ msg @ ''\<newline>''\<rparr>"

section \<open>The two workflow handlers\<close>

text \<open>
  \<^verbatim>\<open>[f for f in result.stdout.strip().split("\n") if f]\<close>: the non-empty lines of the
  stripped standard output. The return code is not read.
\<close>

definition changed_files_of :: "completed_process \<Rightarrow> string list" where
  "changed_files_of result = filter (\<lambda>f. f \<noteq> []) (split_str CHR 10 (strip (stdout result)))"

text \<open>
  The f-string of source lines 79 to 87: the attributes are read from left to right, and
  the first read that raises ends the evaluation.
\<close>

definition code_review_summary_md :: "string list \<Rightarrow> report \<Rightarrow> exn + string" where
  "code_review_summary_md changed_files rep =
     bind_exn (issue_count rep) (\<lambda>ic.
     bind_exn (report.critical_count rep) (\<lambda>cc.
     bind_exn (warning_count rep) (\<lambda>wc.
     bind_exn (info_count rep) (\<lambda>nc.
     bind_exn (tier_used rep) (\<lambda>tu.
     bind_exn (cost_savings rep) (\<lambda>cs.
     Inr (''## Attune AI Code Review\<newline>\<newline>'' @
          ''**Files reviewed:** '' @ str_nat (length changed_files) @ ''\<newline>\<newline>'' @
          ''**Issues found:** '' @ py_format ic @ ''\<newline>\<newline>'' @
          ''**Critical:** '' @ py_format cc @ '' | '' @
          ''**Warning:** '' @ py_format wc @ '' | '' @
          ''**Info:** '' @ py_format nc @ ''\<newline>\<newline>'' @
          ''**Cost tier used:** '' @ py_format tu @ ''\<newline>\<newline>'' @
          ''**Estimated savings:** '' @ py_format cs @ ''\<newline>\<newline>'' @
          ''See full report in artifacts.\<newline>'')))))))"

text \<open>The dictionary of source lines 90 to 95.\<close>

definition code_review_result :: "string list \<Rightarrow> report \<Rightarrow> exn + outcome" where
  "code_review_result changed_files rep =
     bind_exn (issue_count rep) (\<lambda>ic.
     bind_exn (issue_count rep) (\<lambda>ic'.
     bind_exn (report.critical_count rep) (\<lambda>cc.
     bind_exn (cost_savings rep) (\<lambda>cs.
     Inr \<lparr>summary = py_format ic @ '' issues found in '' @
                    str_nat (length changed_files) @ '' files'',
          issues_found = ic',
          critical_count = Some cc,
          cost_saved = Some cs\<rparr>))))"

definition no_changed_files :: outcome where
  "no_changed_files =
     \<lparr>summary = ''No changed files detected.'', issues_found = PyInt 0,
      critical_count = None, cost_saved = Some (PyStr ''N/A'')\<rparr>"

definition run_code_review :: "path \<Rightarrow> string \<Rightarrow> world \<Rightarrow> state \<Rightarrow> (exn + outcome) \<times> state" where
  "run_code_review out_dir cfg w s =
     (case import_attune w of
        Some e \<Rightarrow> (Inl e, s)
      | None \<Rightarrow>
     (case WorkflowEngine w True of
        Some e \<Rightarrow> (Inl e, s)
      | None \<Rightarrow>
     (case get_workflow w ''code-review'' of
        Inl e \<Rightarrow> (Inl e, s)
      | Inr wflow \<Rightarrow>
     (case subprocess_run w [''git'', ''diff'', ''--name-only'', ''HEAD~1''] of
        Inl e \<Rightarrow> (Inl e, s)
      | Inr result \<Rightarrow>
     (let changed_files = changed_files_of result in
      if changed_files = [] then (Inr no_changed_files, s)
      else
       (let s1 = s\<lparr>engine_calls := engine_calls s @ [(wflow, Some changed_files, ''markdown'')]\<rparr> in
        (case engine_run w wflow (Some changed_files) ''markdown'' of
           Inl e \<Rightarrow> (Inl e, s1)
         | Inr rep \<Rightarrow>
        (case to_markdown rep of
           Inl e \<Rightarrow> (Inl e, s1)
         | Inr md \<Rightarrow>
        (case write_text w (truediv out_dir ''code-review-report.md'') md s1 of
           Inl e \<Rightarrow> (Inl e, s1)
         | Inr s2 \<Rightarrow>
        (case code_review_summary_md changed_files rep of
           Inl e \<Rightarrow> (Inl e, s2)
         | Inr text \<Rightarrow>
        (case write_text w (truediv out_dir ''summary.md'') text s2 of
           Inl e \<Rightarrow> (Inl e, s2)
         | Inr s3 \<Rightarrow>
        (case code_review_result changed_files rep of
           Inl e \<Rightarrow> (Inl e, s3)
         | Inr res \<Rightarrow> (Inr res, s3)))))))))))))"

text \<open>The f-string of source lines 118 to 125.\<close>

definition release_prep_summary_md :: "report \<Rightarrow> exn + string" where
  "release_prep_summary_md rep =
     bind_exn (security_status rep) (\<lambda>ss.
     bind_exn (test_coverage rep) (\<lambda>tc.
     bind_exn (changelog rep) (\<lambda>cl.
     bind_exn (gates_passed rep) (\<lambda>gp.
     bind_exn (gates_total rep) (\<lambda>gt.
     bind_exn (tier_used rep) (\<lambda>tu.
     bind_exn (cost_savings rep) (\<lambda>cs.
     Inr (''## Attune AI Release Prep\<newline>\<newline>'' @
          ''**Security audit:** '' @ py_format ss @ ''\<newline>\<newline>'' @
          ''**Test coverage:** '' @ py_format tc @ ''\<newline>\<newline>'' @
          ''**Changelog generated:** '' @ (if py_truth cl then ''Yes'' else ''No'') @
             ''\<newline>\<newline>'' @
          ''**Quality gates passed:** '' @ py_format gp @ ''/'' @ py_format gt @
             ''\<newline>\<newline>'' @
          ''**Cost tier used:** '' @ py_format tu @ ''\<newline>\<newline>'' @
          ''**Estimated savings:** '' @ py_format cs @ ''\<newline>\<newline>'' @
          ''See full report in artifacts.\<newline>''))))))))"

text \<open>
  The dictionary of source lines 128 to 132; the subtraction of line 130 comes after both
  files are written.
\<close>

definition release_prep_result :: "report \<Rightarrow> exn + outcome" where
  "release_prep_result rep =
     bind_exn (gates_passed rep) (\<lambda>gp.
     bind_exn (gates_total rep) (\<lambda>gt.
     bind_exn (gates_total rep) (\<lambda>gt'.
     bind_exn (gates_passed rep) (\<lambda>gp'.
     bind_exn (py_sub gt' gp') (\<lambda>d.
     bind_exn (cost_savings rep) (\<lambda>cs.
     Inr \<lparr>summary = ''Release prep complete: '' @ py_format gp @ ''/'' @ py_format gt @
                    '' gates passed'',
          issues_found = d,
          critical_count = None,
          cost_saved = Some cs\<rparr>))))))"

definition run_release_prep :: "path \<Rightarrow> string \<Rightarrow> world \<Rightarrow> state \<Rightarrow> (exn + outcome) \<times> state" where
  "run_release_prep out_dir cfg w s =
     (case import_attune w of
        Some e \<Rightarrow> (Inl e, s)
      | None \<Rightarrow>
     (case WorkflowEngine w True of
        Some e \<Rightarrow> (Inl e, s)
      | None \<Rightarrow>
     (case get_workflow w ''release-prep'' of
        Inl e \<Rightarrow> (Inl e, s)
      | Inr wflow \<Rightarrow>
     (let s1 = s\<lparr>engine_calls := engine_calls s @ [(wflow, None, ''markdown'')]\<rparr> in
      (case engine_run w wflow None ''markdown'' of
         Inl e \<Rightarrow> (Inl e, s1)
       | Inr rep \<Rightarrow>
      (case to_markdown rep of
         Inl e \<Rightarrow> (Inl e, s1)
       | Inr md \<Rightarrow>
      (case write_text w (truediv out_dir ''release-prep-report.md'') md s1 of
         Inl e \<Rightarrow> (Inl e, s1)
       | Inr s2 \<Rightarrow>
      (case release_prep_summary_md rep of
         Inl e \<Rightarrow> (Inl e, s2)
       | Inr text \<Rightarrow>
      (case write_text w (truediv out_dir ''summary.md'') text s2 of
         Inl e \<Rightarrow> (Inl e, s2)
       | Inr s3 \<Rightarrow>
      (case release_prep_result rep of
         Inl e \<Rightarrow> (Inl e, s3)
       | Inr res \<Rightarrow> (Inr res, s3)))))))))))"

section \<open>The entry point\<close>

text \<open>The dictionary \<^verbatim>\<open>workflow_runners\<close>, indexed by the workflow name.\<close>

fun workflow_runners ::
  "workflow_name \<Rightarrow> path \<Rightarrow> string \<Rightarrow> world \<Rightarrow> state \<Rightarrow> (exn + outcome) \<times> state" where
  "workflow_runners CodeReview = run_code_review"
| "workflow_runners ReleasePrep = run_release_prep"

definition error_summary_md :: "workflow_name \<Rightarrow> exn \<Rightarrow> string" where
  "error_summary_md wn e =
     ''## Attune AI - Error\<newline>\<newline>'' @
     ''Workflow `'' @ workflow_str wn @ ''` failed:\<newline>\<newline>'' @
     ''```\<newline>'' @ e @ ''\<newline>```\<newline>''"

text \<open>The four writes to the file named by \<^verbatim>\<open>GITHUB_OUTPUT\<close>, in the order of the source.\<close>

definition github_output_lines :: "path \<Rightarrow> outcome \<Rightarrow> string" where
  "github_output_lines out_dir result =
     (''report='' @ path_str out_dir @ ''\<newline>'') @
     (''summary='' @ summary result @ ''\<newline>'') @
     (''issues_found='' @ py_format (issues_found result) @ ''\<newline>'') @
     (''cost_saved='' @ py_format (dict_get (cost_saved result) (PyStr ''N/A'')) @ ''\<newline>'')"

text \<open>
  Source lines 161 to 167. The \<^verbatim>\<open>open\<close> is not inside the \<^verbatim>\<open>try\<close>: when it raises,
  nothing catches the exception. The name is read as a path, which denotes the same file.
\<close>

definition set_outputs :: "world \<Rightarrow> path \<Rightarrow> outcome \<Rightarrow> state \<Rightarrow> exn + state" where
  "set_outputs w out_dir result s =
     (let github_output = dict_get (environ w ''GITHUB_OUTPUT'') [] in
      if github_output \<noteq> []
      then append_text w (Path github_output) (github_output_lines out_dir result) s
      else Inr s)"

text \<open>
  The condition of source line 170. The comparison is evaluated only when the flag is the
  string \<^verbatim>\<open>true\<close>; it raises on a count that is not a number.
\<close>

definition critical_gate :: "args \<Rightarrow> outcome \<Rightarrow> exn + bool" where
  "critical_gate a result =
     (if fail_on_critical a = ''true''
      then py_gt_zero (dict_get (outcome.critical_count result) (PyInt 0))
      else Inr False)"

text \<open>
  \<^verbatim>\<open>main\<close> after \<^verbatim>\<open>parse_args\<close>: how the process ends, and the final state. Only the call
  of the handler is inside the \<^verbatim>\<open>try\<close>; an exception of \<^verbatim>\<open>mkdir\<close>, of the write in the
  \<^verbatim>\<open>except\<close> block, of the publication or of the gate's comparison is not caught. In the
  gate, \<^verbatim>\<open>result['critical_count']\<close> is read only where the comparison gave \<^verbatim>\<open>True\<close>, that
  is where the key is present.
\<close>

definition main :: "args \<Rightarrow> world \<Rightarrow> state \<Rightarrow> ending \<times> state" where
  "main a w s0 =
     (let out_dir = Path (output_dir a) in
      (case mkdir_parents w out_dir s0 of
         Inl e \<Rightarrow> (Uncaught e, s0)
       | Inr s1 \<Rightarrow>
      (case workflow_runners (workflow a) out_dir (config a) w s1 of
         (Inl e, s2) \<Rightarrow>
           (case write_text w (truediv out_dir ''summary.md'')
                   (error_summary_md (workflow a) e) s2 of
              Inl e' \<Rightarrow> (Uncaught e', s2)
            | Inr s3 \<Rightarrow>
                (Exit 1, print_stderr (''::error::Attune workflow failed: '' @ e) s3))
       | (Inr result, s2) \<Rightarrow>
           (case set_outputs w out_dir result s2 of
              Inl e \<Rightarrow> (Uncaught e, s2)
            | Inr s3 \<Rightarrow>
           (case critical_gate a result of
              Inl e \<Rightarrow> (Uncaught e, s3)
            | Inr fires \<Rightarrow>
                if fires
                then (Exit 1, print_stderr (''::error::Found '' @
                        py_format (dict_get (outcome.critical_count result) (PyInt 0)) @
                        '' critical issues. Set fail_on_critical to false to ignore.'') s3)
                else (Exit 0, print_stdout (''Attune workflow completed: '' @ summary result) s3))))))"

text \<open>The name of the report file each handler writes (source lines 73 and 113).\<close>

definition report_file :: "workflow_name \<Rightarrow> string" where
  "report_file wn = (case wn of CodeReview \<Rightarrow> ''code-review-report.md''
                              | ReleasePrep \<Rightarrow> ''release-prep-report.md'')"

section \<open>Sample runs\<close>

text \<open>
  The run of the specification's example: the diff lists \<^verbatim>\<open>a.py\<close> and \<^verbatim>\<open>b.py\<close>, the engine
  reports three issues, one of them critical, and the output directory is \<^verbatim>\<open>/tmp/out\<close>.
  The directory \<^verbatim>\<open>/tmp\<close> exists, no name is a link, and the operating system refuses
  nothing.
\<close>

definition ex_state :: state where
  "ex_state = \<lparr>files = Map.empty, dirs = {PosixPath ''/'' [''tmp'']},
               sys_stdout = [], sys_stderr = [], engine_calls = []\<rparr>"

definition ex_report :: report where
  "ex_report =
     \<lparr>issue_count = Inr (PyInt 3), critical_count = Inr (PyInt 1),
      warning_count = Inr (PyInt 2), info_count = Inr (PyInt 0),
      tier_used = Inr (PyStr ''cheap''), cost_savings = Inr (PyStr ''$0.42''),
      security_status = Inr (PyStr ''passed''), test_coverage = Inr (PyStr ''81%''),
      changelog = Inr (PyStr ''## 1.2.0''), gates_passed = Inr (PyInt 3),
      gates_total = Inr (PyInt 4), to_markdown = Inr ''# Report''\<rparr>"

definition ex_diff :: completed_process where
  "ex_diff = \<lparr>returncode = 0, stdout = ''a.py\<newline>b.py\<newline>'', stderr = []\<rparr>"

definition ex_world :: world where
  "ex_world =
     \<lparr>import_attune = None, WorkflowEngine = (\<lambda>ci_mode. None), get_workflow = (\<lambda>name. Inr name),
      subprocess_run = (\<lambda>cmd. Inr ex_diff),
      engine_run = (\<lambda>wflow fs fmt. Inr ex_report),
      environ = [''GITHUB_OUTPUT'' \<mapsto> ''/tmp/gh''],
      realpath = (\<lambda>p. p),
      refused = (\<lambda>opn p. False),
      oserror = (\<lambda>opn p. ''[Errno 21] Is a directory: '' @ path_str p)\<rparr>"

definition ex_args :: args where
  "ex_args = \<lparr>workflow = CodeReview, config = [], fail_on_critical = ''true'', output_dir = ''/tmp/out''\<rparr>"

text \<open>The same run with the gate switched off, and the release-prep run.\<close>

definition ex_args_nofail :: args where
  "ex_args_nofail = ex_args\<lparr>fail_on_critical := ''false''\<rparr>"

definition ex_args_release :: args where
  "ex_args_release = ex_args\<lparr>workflow := ReleasePrep\<rparr>"


text \<open>A run whose diff prints nothing, and one whose diff exits with status 1 after printing a name.\<close>

definition ex_world_nodiff :: world where
  "ex_world_nodiff =
     ex_world\<lparr>subprocess_run := (\<lambda>cmd. Inr \<lparr>returncode = 128, stdout = [], stderr = ''fatal: bad revision''\<rparr>)\<rparr>"

definition ex_world_rc1 :: world where
  "ex_world_rc1 =
     ex_world\<lparr>subprocess_run := (\<lambda>cmd. Inr \<lparr>returncode = 1, stdout = ''a.py\<newline>'', stderr = []\<rparr>)\<rparr>"

text \<open>The dictionaries these runs return.\<close>

definition ex_outcome :: outcome where
  "ex_outcome =
     \<lparr>summary = ''3 issues found in 2 files'', issues_found = PyInt 3,
      critical_count = Some (PyInt 1), cost_saved = Some (PyStr ''$0.42'')\<rparr>"

definition ex_outcome_release :: outcome where
  "ex_outcome_release =
     \<lparr>summary = ''Release prep complete: 3/4 gates passed'', issues_found = PyInt 1,
      critical_count = None, cost_saved = Some (PyStr ''$0.42'')\<rparr>"

text \<open>The state of the sample runs once the output directory is made.\<close>

definition ex_state_out :: state where
  "ex_state_out =
     ex_state\<lparr>dirs := {PosixPath ''/'' [], PosixPath ''/'' [''tmp''], PosixPath ''/'' [''tmp'', ''out'']}\<rparr>"



text \<open>The sample run with \<^verbatim>\<open>GITHUB_OUTPUT\<close> naming the output directory.\<close>

definition ex_world_ghdir :: world where
  "ex_world_ghdir = ex_world\<lparr>environ := [''GITHUB_OUTPUT'' \<mapsto> ''/tmp/out'']\<rparr>"



text \<open>The state of the sample run when the code-review handler has returned.\<close>

definition ex_state_reviewed :: state where
  "ex_state_reviewed =
     ex_state_out\<lparr>files :=
        [PosixPath ''/'' [''tmp'', ''out'', ''code-review-report.md''] \<mapsto> ''# Report'',
         PosixPath ''/'' [''tmp'', ''out'', ''summary.md''] \<mapsto>
           ''## Attune AI Code Review\<newline>\<newline>**Files reviewed:** 2\<newline>\<newline>**Issues found:** 3\<newline>\<newline>**Critical:** 1 | **Warning:** 2 | **Info:** 0\<newline>\<newline>**Cost tier used:** cheap\<newline>\<newline>**Estimated savings:** $0.42\<newline>\<newline>See full report in artifacts.\<newline>''],
      engine_calls := [(''code-review'', Some [''a.py'', ''b.py''], ''markdown'')]\<rparr>"

text \<open>The state of the sample run when the release-prep handler has returned.\<close>

definition ex_state_prepared :: state where
  "ex_state_prepared =
     ex_state_out\<lparr>files :=
        [PosixPath ''/'' [''tmp'', ''out'', ''release-prep-report.md''] \<mapsto> ''# Report'',
         PosixPath ''/'' [''tmp'', ''out'', ''summary.md''] \<mapsto>
           ''## Attune AI Release Prep\<newline>\<newline>**Security audit:** passed\<newline>\<newline>**Test coverage:** 81%\<newline>\<newline>**Changelog generated:** Yes\<newline>\<newline>**Quality gates passed:** 3/4\<newline>\<newline>**Cost tier used:** cheap\<newline>\<newline>**Estimated savings:** $0.42\<newline>\<newline>See full report in artifacts.\<newline>''],
      engine_calls := [(''release-prep'', None, ''markdown'')]\<rparr>"

text \<open>The four lines the sample code-review run publishes.\<close>

definition ex_lines :: string where
  "ex_lines = ''report=/tmp/out\<newline>summary=3 issues found in 2 files\<newline>issues_found=3\<newline>cost_saved=$0.42\<newline>''"


section \<open>Library facts\<close>

lemma bind_exn_Inl [simp]: "bind_exn (Inl e) f = Inl e"
  by (simp add: bind_exn_def)

lemma bind_exn_Inr [simp]: "bind_exn (Inr v) f = f v"
  by (simp add: bind_exn_def)

lemma Path_summary: "Path ''summary.md'' = PosixPath [] [''summary.md'']"
  by (simp add: Path_def path_root_def)

lemma Path_code_review_report:
  "Path ''code-review-report.md'' = PosixPath [] [''code-review-report.md'']"
  by (simp add: Path_def path_root_def)

lemma Path_release_prep_report:
  "Path ''release-prep-report.md'' = PosixPath [] [''release-prep-report.md'']"
  by (simp add: Path_def path_root_def)

lemma Path_tmp_out: "Path ''/tmp/out'' = PosixPath ''/'' [''tmp'', ''out'']"
  by (simp add: Path_def path_root_def)

lemma Path_tmp_gh: "Path ''/tmp/gh'' = PosixPath ''/'' [''tmp'', ''gh'']"
  by (simp add: Path_def path_root_def)

lemma code_review_report_neq_summary:
  "truediv d ''code-review-report.md'' \<noteq> truediv d ''summary.md''"
  by (cases d) (simp add: Path_summary Path_code_review_report)

lemma blank_strip:
  assumes "\<forall>c\<in>set s. isspace c"
  shows "strip s = []"
proof -
  have "dropWhile isspace s = []"
    using assms by simp
  then show ?thesis
    unfolding strip_def by (simp only: rev.simps dropWhile.simps)
qed

lemma blank_changed_files:
  "\<forall>c\<in>set (stdout result). isspace c \<Longrightarrow> changed_files_of result = []"
  by (simp add: changed_files_of_def blank_strip)


lemmas decimal_eval = str_int_def str_nat.simps digit_char_def

section \<open>What the file operations change\<close>

lemma is_dir_cong: "dirs s' = dirs s \<Longrightarrow> is_dir s' p = is_dir s p"
  by (cases p) simp

lemma can_write_cong: "dirs s' = dirs s \<Longrightarrow> can_write w opn p s' = can_write w opn p s"
  by (simp add: can_write_def is_dir_cong [of s' s])

lemma mkdir_parents_Inr:
  "mkdir_parents w p s = Inr s' \<Longrightarrow>
     files s' = files s \<and> sys_stdout s' = sys_stdout s \<and> sys_stderr s' = sys_stderr s \<and>
     engine_calls s' = engine_calls s"
  by (auto simp add: mkdir_parents_def split: if_splits)

lemma set_outputs_Inr:
  "set_outputs w d r s = Inr s' \<Longrightarrow>
     sys_stdout s' = sys_stdout s \<and> sys_stderr s' = sys_stderr s \<and>
     engine_calls s' = engine_calls s \<and> dirs s' = dirs s"
  by (auto simp add: set_outputs_def append_text_def Let_def split: if_splits)

section \<open>What the handlers leave untouched\<close>

lemma run_code_review_frame:
  assumes "run_code_review out cfg w s = (r, s')"
  shows "sys_stdout s' = sys_stdout s \<and> sys_stderr s' = sys_stderr s \<and> dirs s' = dirs s \<and>
         (\<forall>q. q \<noteq> realpath w (truediv out ''code-review-report.md'') \<longrightarrow>
              q \<noteq> realpath w (truediv out ''summary.md'') \<longrightarrow> files s' q = files s q)"
  using assms
  by (auto simp add: run_code_review_def write_text_def Let_def
        split: option.splits sum.splits if_splits)

lemma run_release_prep_frame:
  assumes "run_release_prep out cfg w s = (r, s')"
  shows "sys_stdout s' = sys_stdout s \<and> sys_stderr s' = sys_stderr s \<and> dirs s' = dirs s \<and>
         (\<forall>q. q \<noteq> realpath w (truediv out ''release-prep-report.md'') \<longrightarrow>
              q \<noteq> realpath w (truediv out ''summary.md'') \<longrightarrow> files s' q = files s q)"
  using assms
  by (auto simp add: run_release_prep_def write_text_def Let_def
        split: option.splits sum.splits if_splits)

lemma workflow_runners_frame:
  assumes "workflow_runners wn out cfg w s = (r, s')"
  shows "sys_stdout s' = sys_stdout s \<and> sys_stderr s' = sys_stderr s \<and> dirs s' = dirs s \<and>
         (\<forall>q. q \<noteq> realpath w (truediv out (report_file wn)) \<longrightarrow>
              q \<noteq> realpath w (truediv out ''summary.md'') \<longrightarrow> files s' q = files s q)"
proof (cases wn)
  case CodeReview
  then show ?thesis
    using run_code_review_frame [of out cfg w s r s'] assms by (simp add: report_file_def)
next
  case ReleasePrep
  then show ?thesis
    using run_release_prep_frame [of out cfg w s r s'] assms by (simp add: report_file_def)
qed

section \<open>How \<open>main\<close> continues after the handler\<close>


lemma main_returned:
  assumes "mkdir_parents w (Path (output_dir a)) s0 = Inr s1"
    and "workflow_runners (workflow a) (Path (output_dir a)) (config a) w s1 = (Inr result, s2)"
  shows "main a w s0 =
     (case set_outputs w (Path (output_dir a)) result s2 of
        Inl e \<Rightarrow> (Uncaught e, s2)
      | Inr s3 \<Rightarrow>
     (case critical_gate a result of
        Inl e \<Rightarrow> (Uncaught e, s3)
      | Inr fires \<Rightarrow>
          if fires
          then (Exit 1, print_stderr (''::error::Found '' @
                  py_format (dict_get (outcome.critical_count result) (PyInt 0)) @
                  '' critical issues. Set fail_on_critical to false to ignore.'') s3)
          else (Exit 0, print_stdout (''Attune workflow completed: '' @ summary result) s3)))"
  using assms by (simp add: main_def Let_def)

lemma streams_after_handler:
  assumes "mkdir_parents w p s0 = Inr s1"
    and "workflow_runners wn out cfg w s1 = (r, s2)"
  shows "sys_stdout s2 = sys_stdout s0 \<and> sys_stderr s2 = sys_stderr s0"
  using mkdir_parents_Inr [OF assms(1)] workflow_runners_frame [OF assms(2)] by simp

lemma release_prep_no_critical_count:
  "run_release_prep out cfg w s = (Inr result, s') \<Longrightarrow> outcome.critical_count result = None"
  by (auto simp add: run_release_prep_def release_prep_result_def bind_exn_def Let_def
        split: option.splits sum.splits)

section \<open>The files a run changes\<close>









section \<open>The sample runs, evaluated\<close>

lemma ex_changed_files: "changed_files_of ex_diff = [''a.py'', ''b.py'']"
  by (simp add: changed_files_of_def ex_diff_def strip_def isspace_def)

lemma ex_mkdir:
  assumes "realpath w = (\<lambda>p. p)" and "refused w Mkdir = (\<lambda>p. False)"
  shows "mkdir_parents w (Path ''/tmp/out'') ex_state = Inr ex_state_out"
proof -
  have "dirs ex_state \<union> set (ancestors (PosixPath ''/'' [''tmp'', ''out''])) =
        {PosixPath ''/'' [], PosixPath ''/'' [''tmp''], PosixPath ''/'' [''tmp'', ''out'']}"
    by (auto simp add: ex_state_def)
  then show ?thesis
    using assms by (simp add: mkdir_parents_def Path_tmp_out ex_state_out_def ex_state_def)
qed

lemma ex_review:
  assumes "import_attune w = None" and "WorkflowEngine w = (\<lambda>ci_mode. None)"
    and "get_workflow w = (\<lambda>name. Inr name)" and "subprocess_run w = (\<lambda>cmd. Inr ex_diff)"
    and "engine_run w = (\<lambda>wflow fs fmt. Inr ex_report)"
    and "realpath w = (\<lambda>p. p)" and "refused w = (\<lambda>opn p. False)"
  shows "run_code_review (Path ''/tmp/out'') cfg w ex_state_out = (Inr ex_outcome, ex_state_reviewed)"
  using assms
  by (simp add: run_code_review_def ex_changed_files Path_tmp_out Path_summary
        Path_code_review_report write_text_def can_write_def ex_state_out_def ex_state_def
        ex_report_def code_review_summary_md_def code_review_result_def ex_outcome_def
        ex_state_reviewed_def decimal_eval)

lemma ex_prepare:
  assumes "import_attune w = None" and "WorkflowEngine w = (\<lambda>ci_mode. None)"
    and "get_workflow w = (\<lambda>name. Inr name)"
    and "engine_run w = (\<lambda>wflow fs fmt. Inr ex_report)"
    and "realpath w = (\<lambda>p. p)" and "refused w = (\<lambda>opn p. False)"
  shows "run_release_prep (Path ''/tmp/out'') cfg w ex_state_out =
           (Inr ex_outcome_release, ex_state_prepared)"
  using assms
  by (simp add: run_release_prep_def Path_tmp_out Path_summary
        Path_release_prep_report write_text_def can_write_def ex_state_out_def ex_state_def
        ex_report_def release_prep_summary_md_def release_prep_result_def
        ex_outcome_release_def ex_state_prepared_def decimal_eval)

lemma ex_lines_eval: "github_output_lines (Path ''/tmp/out'') ex_outcome = ex_lines"
  by (simp add: github_output_lines_def Path_tmp_out ex_outcome_def ex_lines_def dict_get_def
        decimal_eval)

lemma ex_publish:
  assumes "environ w ''GITHUB_OUTPUT'' = Some ''/tmp/gh''"
    and "realpath w = (\<lambda>p. p)" and "refused w = (\<lambda>opn p. False)"
  shows "set_outputs w (Path ''/tmp/out'') ex_outcome ex_state_reviewed =
           Inr (ex_state_reviewed\<lparr>files := (files ex_state_reviewed)
                  (PosixPath ''/'' [''tmp'', ''gh''] \<mapsto> ex_lines)\<rparr>)"
  using assms
  by (simp add: set_outputs_def dict_get_def append_text_def can_write_def Path_tmp_gh ex_lines_eval
        ex_state_reviewed_def ex_state_out_def ex_state_def)

lemma ex_publish_dir:
  assumes "environ w ''GITHUB_OUTPUT'' = Some ''/tmp/out''"
    and "realpath w = (\<lambda>p. p)"
  shows "set_outputs w (Path ''/tmp/out'') r ex_state_reviewed =
           Inl (oserror w OpenAppend (PosixPath ''/'' [''tmp'', ''out'']))"
  using assms
  by (simp add: set_outputs_def dict_get_def append_text_def can_write_def Path_tmp_out
        ex_state_reviewed_def ex_state_out_def ex_state_def)

section \<open>The critical-issue gate\<close>

text \<open>
  Claim C1. Whenever the selected handler returns a result, the fail-on-critical parameter
  is the string \<^verbatim>\<open>true\<close> and the result's critical count is a positive number, the process
  exits with a non-zero status. If the publication of the outputs does not raise, the
  status is 1 and the error stream gains the annotation naming that count; if it raises,
  the run ends there with that exception uncaught, before the gate is reached.
\<close>

theorem critical_gate_exits_nonzero:
  assumes "mkdir_parents w (Path (output_dir a)) s0 = Inr s1"
    and "workflow_runners (workflow a) (Path (output_dir a)) (config a) w s1 = (Inr result, s2)"
    and "fail_on_critical a = ''true''"
    and "outcome.critical_count result = Some (PyInt c)"
    and "0 < c"
  shows "exit_status (fst (main a w s0)) \<noteq> 0 \<and>
         (\<forall>s3. set_outputs w (Path (output_dir a)) result s2 = Inr s3 \<longrightarrow>
            fst (main a w s0) = Exit 1 \<and>
            sys_stderr (snd (main a w s0)) =
              sys_stderr s0 @ ''::error::Found '' @ str_int c @
                '' critical issues. Set fail_on_critical to false to ignore.\<newline>'') \<and>
         (\<forall>e. set_outputs w (Path (output_dir a)) result s2 = Inl e \<longrightarrow>
            main a w s0 = (Uncaught e, s2))"
proof -
  have gate: "critical_gate a result = Inr True"
    using assms(3-5) by (simp add: critical_gate_def dict_get_def)
  note streams = streams_after_handler [OF assms(1,2)]
  show ?thesis
  proof (cases "set_outputs w (Path (output_dir a)) result s2")
    case (Inl e)
    then show ?thesis
      by (simp add: main_returned [OF assms(1,2)])
  next
    case (Inr s3)
    then show ?thesis
      using gate streams set_outputs_Inr [OF Inr] assms(4)
      by (simp add: main_returned [OF assms(1,2)] print_stderr_def dict_get_def)
  qed
qed

theorem critical_gate_exits_nonzero_witness:
  "mkdir_parents ex_world (Path (output_dir ex_args)) ex_state = Inr ex_state_out \<and>
   workflow_runners (workflow ex_args) (Path (output_dir ex_args)) (config ex_args)
     ex_world ex_state_out = (Inr ex_outcome, ex_state_reviewed) \<and>
   fail_on_critical ex_args = ''true'' \<and>
   outcome.critical_count ex_outcome = Some (PyInt 1) \<and>
   set_outputs ex_world (Path (output_dir ex_args)) ex_outcome ex_state_reviewed =
     Inr (ex_state_reviewed\<lparr>files := (files ex_state_reviewed)
            (PosixPath ''/'' [''tmp'', ''gh''] \<mapsto> ex_lines)\<rparr>) \<and>
   exit_status (fst (main ex_args ex_world ex_state)) \<noteq> 0 \<and>
   fst (main ex_args ex_world ex_state) = Exit 1 \<and>
   sys_stderr (snd (main ex_args ex_world ex_state)) =
     ''::error::Found 1 critical issues. Set fail_on_critical to false to ignore.\<newline>''"
proof -
  have h1: "mkdir_parents ex_world (Path (output_dir ex_args)) ex_state = Inr ex_state_out"
    by (simp add: ex_args_def ex_mkdir ex_world_def)
  have h2: "workflow_runners (workflow ex_args) (Path (output_dir ex_args)) (config ex_args)
              ex_world ex_state_out = (Inr ex_outcome, ex_state_reviewed)"
    by (simp add: ex_args_def ex_review ex_world_def)
  have h3: "fail_on_critical ex_args = ''true''"
    by (simp add: ex_args_def)
  have h4: "outcome.critical_count ex_outcome = Some (PyInt 1)"
    by (simp add: ex_outcome_def)
  have h5: "(0::int) < 1"
    by simp
  have h6: "set_outputs ex_world (Path (output_dir ex_args)) ex_outcome ex_state_reviewed =
     Inr (ex_state_reviewed\<lparr>files := (files ex_state_reviewed)
            (PosixPath ''/'' [''tmp'', ''gh''] \<mapsto> ex_lines)\<rparr>)"
    by (simp add: ex_args_def ex_publish ex_world_def)
  have h7: "sys_stderr ex_state = []"
    by (simp add: ex_state_def)
  show ?thesis
    using critical_gate_exits_nonzero [OF h1 h2 h3 h4 h5] h1 h2 h3 h4 h6 h7
    by (simp add: decimal_eval)
qed

text \<open>
  A run against claim C1 as it stands: the variable \<^verbatim>\<open>GITHUB_OUTPUT\<close> names the output
  directory. The handler returns one critical issue and the flag is \<^verbatim>\<open>true\<close>, yet the run
  ends in the uncaught exception of \<^verbatim>\<open>open\<close> and the script has written no annotation to the
  error stream.
\<close>

theorem gate_not_reached_when_publication_raises:
  "workflow_runners (workflow ex_args) (Path (output_dir ex_args)) (config ex_args)
     ex_world_ghdir ex_state_out = (Inr ex_outcome, ex_state_reviewed) \<and>
   fail_on_critical ex_args = ''true'' \<and>
   outcome.critical_count ex_outcome = Some (PyInt 1) \<and>
   fst (main ex_args ex_world_ghdir ex_state) = Uncaught ''[Errno 21] Is a directory: /tmp/out'' \<and>
   sys_stderr (snd (main ex_args ex_world_ghdir ex_state)) = []"
proof -
  have h1: "mkdir_parents ex_world_ghdir (Path (output_dir ex_args)) ex_state = Inr ex_state_out"
    by (simp add: ex_args_def ex_mkdir ex_world_ghdir_def ex_world_def)
  have h2: "workflow_runners (workflow ex_args) (Path (output_dir ex_args)) (config ex_args)
              ex_world_ghdir ex_state_out = (Inr ex_outcome, ex_state_reviewed)"
    by (simp add: ex_args_def ex_review ex_world_ghdir_def ex_world_def)
  have h3: "set_outputs ex_world_ghdir (Path (output_dir ex_args)) ex_outcome ex_state_reviewed =
              Inl ''[Errno 21] Is a directory: /tmp/out''"
    by (simp add: ex_args_def ex_publish_dir ex_world_ghdir_def ex_world_def)
  have m: "main ex_args ex_world_ghdir ex_state =
             (Uncaught ''[Errno 21] Is a directory: /tmp/out'', ex_state_reviewed)"
    using h3 by (simp add: main_returned [OF h1 h2])
  have h4: "fail_on_critical ex_args = ''true'' \<and>
            outcome.critical_count ex_outcome = Some (PyInt 1) \<and>
            sys_stderr ex_state_reviewed = []"
    by (simp add: ex_args_def ex_outcome_def ex_state_reviewed_def ex_state_out_def ex_state_def)
  show ?thesis
    using h2 h4 by (simp add: m)
qed

text \<open>
  Claim C6. Whenever the handler returns a result and the fail-on-critical parameter is any
  string other than \<^verbatim>\<open>true\<close>, the gate does not fire, whatever the critical count is: if
  the publication of the outputs does not raise, the process exits with status 0, prints
  the completion message and writes nothing to the error stream; if it raises, the run
  ends with that exception uncaught.
\<close>

theorem no_gate_unless_true:
  assumes "mkdir_parents w (Path (output_dir a)) s0 = Inr s1"
    and "workflow_runners (workflow a) (Path (output_dir a)) (config a) w s1 = (Inr result, s2)"
    and "fail_on_critical a \<noteq> ''true''"
  shows "critical_gate a result = Inr False \<and>
         (\<forall>s3. set_outputs w (Path (output_dir a)) result s2 = Inr s3 \<longrightarrow>
            fst (main a w s0) = Exit 0 \<and>
            sys_stdout (snd (main a w s0)) =
              sys_stdout s0 @ ''Attune workflow completed: '' @ summary result @ ''\<newline>'' \<and>
            sys_stderr (snd (main a w s0)) = sys_stderr s0) \<and>
         (\<forall>e. set_outputs w (Path (output_dir a)) result s2 = Inl e \<longrightarrow>
            main a w s0 = (Uncaught e, s2))"
proof -
  have gate: "critical_gate a result = Inr False"
    using assms(3) by (simp add: critical_gate_def)
  note streams = streams_after_handler [OF assms(1,2)]
  show ?thesis
  proof (cases "set_outputs w (Path (output_dir a)) result s2")
    case (Inl e)
    then show ?thesis
      using gate by (simp add: main_returned [OF assms(1,2)])
  next
    case (Inr s3)
    then show ?thesis
      using gate streams set_outputs_Inr [OF Inr]
      by (simp add: main_returned [OF assms(1,2)] print_stdout_def)
  qed
qed

theorem no_gate_unless_true_witness:
  "mkdir_parents ex_world (Path (output_dir ex_args_nofail)) ex_state = Inr ex_state_out \<and>
   workflow_runners (workflow ex_args_nofail) (Path (output_dir ex_args_nofail))
     (config ex_args_nofail) ex_world ex_state_out = (Inr ex_outcome, ex_state_reviewed) \<and>
   fail_on_critical ex_args_nofail \<noteq> ''true'' \<and>
   outcome.critical_count ex_outcome = Some (PyInt 1) \<and>
   set_outputs ex_world (Path (output_dir ex_args_nofail)) ex_outcome ex_state_reviewed =
     Inr (ex_state_reviewed\<lparr>files := (files ex_state_reviewed)
            (PosixPath ''/'' [''tmp'', ''gh''] \<mapsto> ex_lines)\<rparr>) \<and>
   critical_gate ex_args_nofail ex_outcome = Inr False \<and>
   fst (main ex_args_nofail ex_world ex_state) = Exit 0 \<and>
   sys_stdout (snd (main ex_args_nofail ex_world ex_state)) =
     ''Attune workflow completed: 3 issues found in 2 files\<newline>'' \<and>
   sys_stderr (snd (main ex_args_nofail ex_world ex_state)) = []"
proof -
  have h1: "mkdir_parents ex_world (Path (output_dir ex_args_nofail)) ex_state = Inr ex_state_out"
    by (simp add: ex_args_nofail_def ex_args_def ex_mkdir ex_world_def)
  have h2: "workflow_runners (workflow ex_args_nofail) (Path (output_dir ex_args_nofail))
              (config ex_args_nofail) ex_world ex_state_out = (Inr ex_outcome, ex_state_reviewed)"
    by (simp add: ex_args_nofail_def ex_args_def ex_review ex_world_def)
  have h3: "fail_on_critical ex_args_nofail \<noteq> ''true''"
    by (simp add: ex_args_nofail_def)
  have h4: "outcome.critical_count ex_outcome = Some (PyInt 1)"
    by (simp add: ex_outcome_def)
  have h6: "set_outputs ex_world (Path (output_dir ex_args_nofail)) ex_outcome ex_state_reviewed =
     Inr (ex_state_reviewed\<lparr>files := (files ex_state_reviewed)
            (PosixPath ''/'' [''tmp'', ''gh''] \<mapsto> ex_lines)\<rparr>)"
    by (simp add: ex_args_nofail_def ex_args_def ex_publish ex_world_def)
  have h7: "sys_stderr ex_state = [] \<and> sys_stdout ex_state = [] \<and>
            summary ex_outcome = ''3 issues found in 2 files''"
    by (simp add: ex_state_def ex_outcome_def)
  show ?thesis
    using no_gate_unless_true [OF h1 h2 h3] h1 h2 h3 h4 h6 h7
    by simp
qed

text \<open>
  A run against claim C6 as it stands: the flag is \<^verbatim>\<open>false\<close> and the variable
  \<^verbatim>\<open>GITHUB_OUTPUT\<close> names the output directory. The handler returns, yet the process ends
  with exit status 1 and without the completion message.
\<close>

theorem no_gate_yet_nonzero_exit:
  "workflow_runners (workflow ex_args_nofail) (Path (output_dir ex_args_nofail))
     (config ex_args_nofail) ex_world_ghdir ex_state_out = (Inr ex_outcome, ex_state_reviewed) \<and>
   fail_on_critical ex_args_nofail \<noteq> ''true'' \<and>
   outcome.critical_count ex_outcome = Some (PyInt 1) \<and>
   exit_status (fst (main ex_args_nofail ex_world_ghdir ex_state)) = 1 \<and>
   sys_stdout (snd (main ex_args_nofail ex_world_ghdir ex_state)) = []"
proof -
  have h1: "mkdir_parents ex_world_ghdir (Path (output_dir ex_args_nofail)) ex_state =
              Inr ex_state_out"
    by (simp add: ex_args_nofail_def ex_args_def ex_mkdir ex_world_ghdir_def ex_world_def)
  have h2: "workflow_runners (workflow ex_args_nofail) (Path (output_dir ex_args_nofail))
              (config ex_args_nofail) ex_world_ghdir ex_state_out =
              (Inr ex_outcome, ex_state_reviewed)"
    by (simp add: ex_args_nofail_def ex_args_def ex_review ex_world_ghdir_def ex_world_def)
  have h3: "set_outputs ex_world_ghdir (Path (output_dir ex_args_nofail)) ex_outcome
              ex_state_reviewed = Inl ''[Errno 21] Is a directory: /tmp/out''"
    by (simp add: ex_args_nofail_def ex_args_def ex_publish_dir ex_world_ghdir_def ex_world_def)
  have m: "main ex_args_nofail ex_world_ghdir ex_state =
             (Uncaught ''[Errno 21] Is a directory: /tmp/out'', ex_state_reviewed)"
    using h3 by (simp add: main_returned [OF h1 h2])
  have h4: "fail_on_critical ex_args_nofail \<noteq> ''true'' \<and>
            outcome.critical_count ex_outcome = Some (PyInt 1) \<and>
            sys_stdout ex_state_reviewed = []"
    by (simp add: ex_args_nofail_def ex_outcome_def ex_state_reviewed_def ex_state_out_def
          ex_state_def)
  show ?thesis
    using h2 h4 by (simp add: m)
qed

text \<open>
  Claim C8. The dictionary the release-prep handler returns has no critical count, so the
  condition of the critical-issue gate is false for every fail-on-critical value and every
  engine report: a release-prep run whose handler returns never ends with exit status 1 and
  the gate's annotation. It exits with status 0 after the completion message, unless the
  publication of the outputs raises.
\<close>

theorem release_prep_never_gated:
  assumes "workflow a = ReleasePrep"
    and "mkdir_parents w (Path (output_dir a)) s0 = Inr s1"
    and "workflow_runners (workflow a) (Path (output_dir a)) (config a) w s1 = (Inr result, s2)"
  shows "outcome.critical_count result = None \<and>
         critical_gate a result = Inr False \<and>
         main a w s0 =
           (case set_outputs w (Path (output_dir a)) result s2 of
              Inl e \<Rightarrow> (Uncaught e, s2)
            | Inr s3 \<Rightarrow>
                (Exit 0, print_stdout (''Attune workflow completed: '' @ summary result) s3)) \<and>
         sys_stderr (snd (main a w s0)) = sys_stderr s0"
proof -
  have none: "outcome.critical_count result = None"
    using assms(1,3) release_prep_no_critical_count [of "Path (output_dir a)" "config a" w s1 result s2]
    by simp
  have gate: "critical_gate a result = Inr False"
    using none by (simp add: critical_gate_def dict_get_def)
  note streams = streams_after_handler [OF assms(2,3)]
  show ?thesis
  proof (cases "set_outputs w (Path (output_dir a)) result s2")
    case (Inl e)
    then show ?thesis
      using none gate streams by (simp add: main_returned [OF assms(2,3)])
  next
    case (Inr s3)
    then show ?thesis
      using none gate streams set_outputs_Inr [OF Inr]
      by (simp add: main_returned [OF assms(2,3)] print_stdout_def)
  qed
qed

theorem release_prep_never_gated_witness:
  "workflow ex_args_release = ReleasePrep \<and>
   fail_on_critical ex_args_release = ''true'' \<and>
   mkdir_parents ex_world (Path (output_dir ex_args_release)) ex_state = Inr ex_state_out \<and>
   workflow_runners (workflow ex_args_release) (Path (output_dir ex_args_release))
     (config ex_args_release) ex_world ex_state_out = (Inr ex_outcome_release, ex_state_prepared) \<and>
   outcome.critical_count ex_outcome_release = None \<and>
   critical_gate ex_args_release ex_outcome_release = Inr False \<and>
   fst (main ex_args_release ex_world ex_state) = Exit 0 \<and>
   sys_stderr (snd (main ex_args_release ex_world ex_state)) = []"
proof -
  have h1: "workflow ex_args_release = ReleasePrep"
    by (simp add: ex_args_release_def)
  have h2: "mkdir_parents ex_world (Path (output_dir ex_args_release)) ex_state = Inr ex_state_out"
    by (simp add: ex_args_release_def ex_args_def ex_mkdir ex_world_def)
  have h3: "workflow_runners (workflow ex_args_release) (Path (output_dir ex_args_release))
     (config ex_args_release) ex_world ex_state_out = (Inr ex_outcome_release, ex_state_prepared)"
    by (simp add: ex_args_release_def ex_args_def ex_prepare ex_world_def)
  have h4: "set_outputs ex_world (Path (output_dir ex_args_release)) ex_outcome_release
              ex_state_prepared \<noteq> Inl e" for e
    by (simp add: set_outputs_def dict_get_def append_text_def can_write_def Path_tmp_gh
          ex_world_def ex_state_prepared_def ex_state_out_def ex_state_def)
  have h5: "fail_on_critical ex_args_release = ''true'' \<and> sys_stderr ex_state = []"
    by (simp add: ex_args_release_def ex_args_def ex_state_def)
  obtain s3 where p: "set_outputs ex_world (Path (output_dir ex_args_release))
                         ex_outcome_release ex_state_prepared = Inr s3"
    using h4 by (cases "set_outputs ex_world (Path (output_dir ex_args_release))
                          ex_outcome_release ex_state_prepared") auto
  note t = release_prep_never_gated [OF h1 h2 h3]
  have c: "outcome.critical_count ex_outcome_release = None \<and>
           critical_gate ex_args_release ex_outcome_release = Inr False"
    using t by simp
  have m: "fst (main ex_args_release ex_world ex_state) = Exit 0"
    using t p by simp
  have e: "sys_stderr (snd (main ex_args_release ex_world ex_state)) = []"
    using conjunct2 [OF conjunct2 [OF conjunct2 [OF t]]] h5 by simp
  show ?thesis
    using h1 h2 h3 h5 c m e by simp
qed

section \<open>The failure boundary\<close>




section \<open>Output publication\<close>




section \<open>The code-review handler\<close>

text \<open>
  Claim C3. When the diff has run and its output yields no changed file, the code-review
  handler returns exactly the dictionary with summary \<^verbatim>\<open>No changed files detected.\<close>,
  issue count 0 and cost-saved \<^verbatim>\<open>N/A\<close> (and no critical count), and leaves the state as it
  found it: in particular the engine's \<^verbatim>\<open>run\<close> is not called.
\<close>

theorem empty_diff_short_circuits:
  assumes "import_attune w = None"
    and "WorkflowEngine w True = None"
    and "get_workflow w ''code-review'' = Inr wflow"
    and "subprocess_run w [''git'', ''diff'', ''--name-only'', ''HEAD~1''] = Inr result"
    and "changed_files_of result = []"
  shows "run_code_review out cfg w s =
           (Inr \<lparr>summary = ''No changed files detected.'', issues_found = PyInt 0,
                 critical_count = None, cost_saved = Some (PyStr ''N/A'')\<rparr>, s) \<and>
         engine_calls (snd (run_code_review out cfg w s)) = engine_calls s"
  using assms
  by (simp add: run_code_review_def no_changed_files_def)

theorem empty_diff_short_circuits_witness:
  "import_attune ex_world_nodiff = None \<and>
   WorkflowEngine ex_world_nodiff True = None \<and>
   get_workflow ex_world_nodiff ''code-review'' = Inr ''code-review'' \<and>
   subprocess_run ex_world_nodiff [''git'', ''diff'', ''--name-only'', ''HEAD~1''] =
     Inr \<lparr>returncode = 128, stdout = [], stderr = ''fatal: bad revision''\<rparr> \<and>
   changed_files_of \<lparr>returncode = 128, stdout = [], stderr = ''fatal: bad revision''\<rparr> = [] \<and>
   run_code_review (Path ''/tmp/out'') [] ex_world_nodiff ex_state_out =
     (Inr \<lparr>summary = ''No changed files detected.'', issues_found = PyInt 0,
           critical_count = None, cost_saved = Some (PyStr ''N/A'')\<rparr>, ex_state_out) \<and>
   engine_calls (snd (run_code_review (Path ''/tmp/out'') [] ex_world_nodiff ex_state_out)) = []"
proof -
  have h1: "import_attune ex_world_nodiff = None"
    by (simp add: ex_world_nodiff_def ex_world_def)
  have h2: "WorkflowEngine ex_world_nodiff True = None"
    by (simp add: ex_world_nodiff_def ex_world_def)
  have h3: "get_workflow ex_world_nodiff ''code-review'' = Inr ''code-review''"
    by (simp add: ex_world_nodiff_def ex_world_def)
  have h4: "subprocess_run ex_world_nodiff [''git'', ''diff'', ''--name-only'', ''HEAD~1''] =
      Inr \<lparr>returncode = 128, stdout = [], stderr = ''fatal: bad revision''\<rparr>"
    by (simp add: ex_world_nodiff_def ex_world_def)
  have h5: "changed_files_of \<lparr>returncode = 128, stdout = [], stderr = ''fatal: bad revision''\<rparr> = []"
    by (simp add: changed_files_of_def strip_def)
  have h6: "engine_calls ex_state_out = []"
    by (simp add: ex_state_out_def ex_state_def)
  show ?thesis
    using empty_diff_short_circuits [OF h1 h2 h3 h4 h5, of "Path ''/tmp/out''" "[]" ex_state_out]
      h1 h2 h3 h4 h5 h6
    by simp
qed

text \<open>
  Claim C4. When the diff yields a non-empty list of changed files, the engine returns a
  report that renders and whose attributes can be read, and the two files can be written
  and are different files, the code-review handler calls the engine's \<^verbatim>\<open>run\<close> once with that
  list, writes the rendering to \<^verbatim>\<open>code-review-report.md\<close>, writes to \<^verbatim>\<open>summary.md\<close> the
  text that carries the number of changed files and the report's issue, critical, warning
  and info counts, and returns the dictionary built from the report.
\<close>

theorem code_review_writes_report_and_summary:
  assumes "import_attune w = None"
    and "WorkflowEngine w True = None"
    and "get_workflow w ''code-review'' = Inr wflow"
    and "subprocess_run w [''git'', ''diff'', ''--name-only'', ''HEAD~1''] = Inr result"
    and "changed_files_of result \<noteq> []"
    and "engine_run w wflow (Some (changed_files_of result)) ''markdown'' = Inr rep"
    and "to_markdown rep = Inr md"
    and "issue_count rep = Inr ic"
    and "report.critical_count rep = Inr cc"
    and "warning_count rep = Inr wc"
    and "info_count rep = Inr nc"
    and "tier_used rep = Inr tu"
    and "cost_savings rep = Inr cs"
    and "can_write w WriteText (truediv out ''code-review-report.md'') s"
    and "can_write w WriteText (truediv out ''summary.md'') s"
    and "realpath w (truediv out ''code-review-report.md'') \<noteq>
         realpath w (truediv out ''summary.md'')"
  shows "engine_calls (snd (run_code_review out cfg w s)) =
           engine_calls s @ [(wflow, Some (changed_files_of result), ''markdown'')] \<and>
         files (snd (run_code_review out cfg w s))
           (realpath w (truediv out ''code-review-report.md'')) = Some md \<and>
         files (snd (run_code_review out cfg w s)) (realpath w (truediv out ''summary.md'')) =
           Some (''## Attune AI Code Review\<newline>\<newline>'' @
                 ''**Files reviewed:** '' @ str_nat (length (changed_files_of result)) @
                 ''\<newline>\<newline>'' @
                 ''**Issues found:** '' @ py_format ic @ ''\<newline>\<newline>'' @
                 ''**Critical:** '' @ py_format cc @ '' | '' @
                 ''**Warning:** '' @ py_format wc @ '' | '' @
                 ''**Info:** '' @ py_format nc @ ''\<newline>\<newline>'' @
                 ''**Cost tier used:** '' @ py_format tu @ ''\<newline>\<newline>'' @
                 ''**Estimated savings:** '' @ py_format cs @ ''\<newline>\<newline>'' @
                 ''See full report in artifacts.\<newline>'') \<and>
         fst (run_code_review out cfg w s) =
           Inr \<lparr>summary = py_format ic @ '' issues found in '' @
                            str_nat (length (changed_files_of result)) @ '' files'',
                 issues_found = ic, critical_count = Some cc, cost_saved = Some cs\<rparr>"
proof -
  let ?s1 = "s\<lparr>engine_calls := engine_calls s @
               [(wflow, Some (changed_files_of result), ''markdown'')]\<rparr>"
  let ?s2 = "?s1\<lparr>files := (files ?s1)(realpath w (truediv out ''code-review-report.md'') \<mapsto> md)\<rparr>"
  have w1: "can_write w WriteText (truediv out ''code-review-report.md'') ?s1"
    using assms(14) can_write_cong [of ?s1 s] by simp
  have w2: "can_write w WriteText (truediv out ''summary.md'') ?s2"
    using assms(15) can_write_cong [of ?s2 s] by simp
  show ?thesis
    using assms(1-13,16) w1 w2
    by (simp add: run_code_review_def Let_def write_text_def code_review_summary_md_def
          code_review_result_def)
qed

theorem code_review_writes_report_and_summary_witness:
  "changed_files_of ex_diff = [''a.py'', ''b.py''] \<and>
   engine_run ex_world ''code-review'' (Some [''a.py'', ''b.py'']) ''markdown'' = Inr ex_report \<and>
   to_markdown ex_report = Inr ''# Report'' \<and>
   can_write ex_world WriteText (truediv (Path ''/tmp/out'') ''code-review-report.md'') ex_state_out \<and>
   can_write ex_world WriteText (truediv (Path ''/tmp/out'') ''summary.md'') ex_state_out \<and>
   engine_calls (snd (run_code_review (Path ''/tmp/out'') [] ex_world ex_state_out)) =
     [(''code-review'', Some [''a.py'', ''b.py''], ''markdown'')] \<and>
   files (snd (run_code_review (Path ''/tmp/out'') [] ex_world ex_state_out))
     (PosixPath ''/'' [''tmp'', ''out'', ''code-review-report.md'']) = Some ''# Report'' \<and>
   files (snd (run_code_review (Path ''/tmp/out'') [] ex_world ex_state_out))
     (PosixPath ''/'' [''tmp'', ''out'', ''summary.md'']) =
     Some ''## Attune AI Code Review\<newline>\<newline>**Files reviewed:** 2\<newline>\<newline>**Issues found:** 3\<newline>\<newline>**Critical:** 1 | **Warning:** 2 | **Info:** 0\<newline>\<newline>**Cost tier used:** cheap\<newline>\<newline>**Estimated savings:** $0.42\<newline>\<newline>See full report in artifacts.\<newline>'' \<and>
   fst (run_code_review (Path ''/tmp/out'') [] ex_world ex_state_out) =
     Inr \<lparr>summary = ''3 issues found in 2 files'', issues_found = PyInt 3,
           critical_count = Some (PyInt 1), cost_saved = Some (PyStr ''$0.42'')\<rparr>"
proof -
  have h1: "import_attune ex_world = None"
    by (simp add: ex_world_def)
  have h2: "WorkflowEngine ex_world True = None"
    by (simp add: ex_world_def)
  have h3: "get_workflow ex_world ''code-review'' = Inr ''code-review''"
    by (simp add: ex_world_def)
  have h4: "subprocess_run ex_world [''git'', ''diff'', ''--name-only'', ''HEAD~1''] = Inr ex_diff"
    by (simp add: ex_world_def)
  have h5: "changed_files_of ex_diff \<noteq> []"
    by (simp add: ex_changed_files)
  have h6: "engine_run ex_world ''code-review'' (Some (changed_files_of ex_diff)) ''markdown'' =
      Inr ex_report"
    by (simp add: ex_world_def)
  have h7: "to_markdown ex_report = Inr ''# Report''"
    by (simp add: ex_report_def)
  have h8: "issue_count ex_report = Inr (PyInt 3)"
    by (simp add: ex_report_def)
  have h9: "report.critical_count ex_report = Inr (PyInt 1)"
    by (simp add: ex_report_def)
  have h10: "warning_count ex_report = Inr (PyInt 2)"
    by (simp add: ex_report_def)
  have h11: "info_count ex_report = Inr (PyInt 0)"
    by (simp add: ex_report_def)
  have h12: "tier_used ex_report = Inr (PyStr ''cheap'')"
    by (simp add: ex_report_def)
  have h13: "cost_savings ex_report = Inr (PyStr ''$0.42'')"
    by (simp add: ex_report_def)
  have h14: "can_write ex_world WriteText (truediv (Path ''/tmp/out'') ''code-review-report.md'')
               ex_state_out"
    by (simp add: can_write_def ex_world_def ex_state_out_def ex_state_def Path_tmp_out
          Path_code_review_report)
  have h15: "can_write ex_world WriteText (truediv (Path ''/tmp/out'') ''summary.md'') ex_state_out"
    by (simp add: can_write_def ex_world_def ex_state_out_def ex_state_def Path_tmp_out
          Path_summary)
  have h16: "realpath ex_world (truediv (Path ''/tmp/out'') ''code-review-report.md'') \<noteq>
             realpath ex_world (truediv (Path ''/tmp/out'') ''summary.md'')"
    by (simp add: ex_world_def code_review_report_neq_summary)
  have h17: "engine_run ex_world ''code-review'' (Some [''a.py'', ''b.py'']) ''markdown'' = Inr ex_report"
    by (simp add: ex_world_def)
  have h18: "realpath ex_world = (\<lambda>p. p) \<and> engine_calls ex_state_out = [] \<and>
             truediv (Path ''/tmp/out'') ''code-review-report.md'' =
               PosixPath ''/'' [''tmp'', ''out'', ''code-review-report.md''] \<and>
             truediv (Path ''/tmp/out'') ''summary.md'' =
               PosixPath ''/'' [''tmp'', ''out'', ''summary.md'']"
    by (simp add: ex_world_def ex_state_out_def ex_state_def Path_tmp_out Path_summary
          Path_code_review_report)
  show ?thesis
    using code_review_writes_report_and_summary
            [OF h1 h2 h3 h4 h5 h6 h7 h8 h9 h10 h11 h12 h13 h14 h15 h16, of "[]"]
          h7 h14 h15 h17 h18
    by (simp add: ex_changed_files decimal_eval)
qed

text \<open>
  Claim C9, as the code has it. The handler reads the standard output of the diff and
  never its return code. If the diff returns with a blank standard output (empty, or
  white space only), whatever its exit status, the code-review handler does not raise: it
  returns the fixed ``no changed files'' dictionary and leaves the state as it found it,
  so the engine's \<^verbatim>\<open>run\<close> is not called. The process then prints the completion message and
  exits with status 0, unless the publication of the outputs raises; in that case the run
  ends with that exception uncaught.
\<close>

theorem blank_diff_output_is_no_changed_files:
  assumes "workflow a = CodeReview"
    and "mkdir_parents w (Path (output_dir a)) s0 = Inr s1"
    and "import_attune w = None"
    and "WorkflowEngine w True = None"
    and "get_workflow w ''code-review'' = Inr wflow"
    and "subprocess_run w [''git'', ''diff'', ''--name-only'', ''HEAD~1''] = Inr result"
    and "\<forall>c\<in>set (stdout result). isspace c"
  shows "workflow_runners (workflow a) (Path (output_dir a)) (config a) w s1 =
           (Inr \<lparr>summary = ''No changed files detected.'', issues_found = PyInt 0,
                 critical_count = None, cost_saved = Some (PyStr ''N/A'')\<rparr>, s1) \<and>
         (\<forall>s3. set_outputs w (Path (output_dir a)) no_changed_files s1 = Inr s3 \<longrightarrow>
            fst (main a w s0) = Exit 0 \<and>
            engine_calls (snd (main a w s0)) = engine_calls s0 \<and>
            sys_stdout (snd (main a w s0)) =
              sys_stdout s0 @ ''Attune workflow completed: No changed files detected.\<newline>'') \<and>
         (\<forall>e. set_outputs w (Path (output_dir a)) no_changed_files s1 = Inl e \<longrightarrow>
            main a w s0 = (Uncaught e, s1))"
proof -
  have run: "workflow_runners (workflow a) (Path (output_dir a)) (config a) w s1 =
               (Inr no_changed_files, s1)"
    using assms(1,3-7) by (simp add: run_code_review_def blank_changed_files)
  have gate: "critical_gate a no_changed_files = Inr False"
    by (simp add: critical_gate_def no_changed_files_def dict_get_def)
  note before = mkdir_parents_Inr [OF assms(2)]
  show ?thesis
  proof (cases "set_outputs w (Path (output_dir a)) no_changed_files s1")
    case (Inl e)
    then show ?thesis
      using run by (simp add: main_returned [OF assms(2) run] no_changed_files_def)
  next
    case (Inr s3)
    have m: "main a w s0 =
               (Exit 0, print_stdout (''Attune workflow completed: '' @ summary no_changed_files) s3)"
      using Inr gate by (simp add: main_returned [OF assms(2) run])
    have s: "summary no_changed_files = ''No changed files detected.''"
      by (simp add: no_changed_files_def)
    show ?thesis
      using run Inr before set_outputs_Inr [OF Inr]
      by (simp add: m s print_stdout_def) (simp add: no_changed_files_def)
  qed
qed

theorem blank_diff_output_is_no_changed_files_witness:
  "workflow ex_args = CodeReview \<and>
   mkdir_parents ex_world_nodiff (Path (output_dir ex_args)) ex_state = Inr ex_state_out \<and>
   subprocess_run ex_world_nodiff [''git'', ''diff'', ''--name-only'', ''HEAD~1''] =
     Inr \<lparr>returncode = 128, stdout = [], stderr = ''fatal: bad revision''\<rparr> \<and>
   workflow_runners (workflow ex_args) (Path (output_dir ex_args)) (config ex_args)
     ex_world_nodiff ex_state_out =
     (Inr \<lparr>summary = ''No changed files detected.'', issues_found = PyInt 0,
           critical_count = None, cost_saved = Some (PyStr ''N/A'')\<rparr>, ex_state_out) \<and>
   set_outputs ex_world_nodiff (Path (output_dir ex_args)) no_changed_files ex_state_out =
     Inr (ex_state_out\<lparr>files := [PosixPath ''/'' [''tmp'', ''gh''] \<mapsto>
       ''report=/tmp/out\<newline>summary=No changed files detected.\<newline>issues_found=0\<newline>cost_saved=N/A\<newline>'']\<rparr>) \<and>
   fst (main ex_args ex_world_nodiff ex_state) = Exit 0 \<and>
   engine_calls (snd (main ex_args ex_world_nodiff ex_state)) = [] \<and>
   sys_stdout (snd (main ex_args ex_world_nodiff ex_state)) =
     ''Attune workflow completed: No changed files detected.\<newline>''"
proof -
  have h1: "workflow ex_args = CodeReview"
    by (simp add: ex_args_def)
  have h2: "mkdir_parents ex_world_nodiff (Path (output_dir ex_args)) ex_state = Inr ex_state_out"
    by (simp add: ex_args_def ex_mkdir ex_world_nodiff_def ex_world_def)
  have h3: "import_attune ex_world_nodiff = None"
    by (simp add: ex_world_nodiff_def ex_world_def)
  have h4: "WorkflowEngine ex_world_nodiff True = None"
    by (simp add: ex_world_nodiff_def ex_world_def)
  have h5: "get_workflow ex_world_nodiff ''code-review'' = Inr ''code-review''"
    by (simp add: ex_world_nodiff_def ex_world_def)
  have h6: "subprocess_run ex_world_nodiff [''git'', ''diff'', ''--name-only'', ''HEAD~1''] =
      Inr \<lparr>returncode = 128, stdout = [], stderr = ''fatal: bad revision''\<rparr>"
    by (simp add: ex_world_nodiff_def ex_world_def)
  have h7: "\<forall>c\<in>set (stdout \<lparr>returncode = 128, stdout = [], stderr = ''fatal: bad revision''\<rparr>).
      isspace c"
    by simp
  have h8: "set_outputs ex_world_nodiff (Path (output_dir ex_args)) no_changed_files ex_state_out =
     Inr (ex_state_out\<lparr>files := [PosixPath ''/'' [''tmp'', ''gh''] \<mapsto>
       ''report=/tmp/out\<newline>summary=No changed files detected.\<newline>issues_found=0\<newline>cost_saved=N/A\<newline>'']\<rparr>)"
    by (simp add: set_outputs_def dict_get_def append_text_def can_write_def Path_tmp_gh
          Path_tmp_out github_output_lines_def no_changed_files_def ex_args_def
          ex_world_nodiff_def ex_world_def ex_state_out_def ex_state_def decimal_eval)
  have h9: "engine_calls ex_state = [] \<and> sys_stdout ex_state = []"
    by (simp add: ex_state_def)
  show ?thesis
    using blank_diff_output_is_no_changed_files [OF h1 h2 h3 h4 h5 h6 h7] h1 h2 h6 h8 h9
    by simp
qed

text \<open>
  A run against claim C9 as it stands: a diff that exits with status 1 after printing one
  name is a failed subprocess, yet the engine is called with that name and the handler does
  not return the fixed dictionary.
\<close>

theorem nonzero_exit_with_output_runs_engine:
  "subprocess_run ex_world_rc1 [''git'', ''diff'', ''--name-only'', ''HEAD~1''] =
     Inr \<lparr>returncode = 1, stdout = ''a.py\<newline>'', stderr = []\<rparr> \<and>
   engine_calls (snd (run_code_review (Path ''/tmp/out'') [] ex_world_rc1 ex_state_out)) =
     [(''code-review'', Some [''a.py''], ''markdown'')] \<and>
   fst (run_code_review (Path ''/tmp/out'') [] ex_world_rc1 ex_state_out) =
     Inr \<lparr>summary = ''3 issues found in 1 files'', issues_found = PyInt 3,
           critical_count = Some (PyInt 1), cost_saved = Some (PyStr ''$0.42'')\<rparr>"
proof -
  have c: "changed_files_of \<lparr>returncode = 1, stdout = ''a.py\<newline>'', stderr = []\<rparr> = [''a.py'']"
    by (simp add: changed_files_of_def strip_def isspace_def)
  show ?thesis
    by (simp add: run_code_review_def c ex_world_rc1_def ex_world_def Path_tmp_out Path_summary
          Path_code_review_report write_text_def can_write_def ex_state_out_def ex_state_def
          ex_report_def code_review_summary_md_def code_review_result_def decimal_eval)
qed

section \<open>The release-prep handler\<close>



section \<open>The files of a run\<close>




end
